theory Spec2Isabelle
  imports Complex_Main "HOL-Library.Char_ord" "HOL-Library.List_Lexorder"
    "HOL-Library.Multiset" "HOL-Library.Sublist"
begin

section \<open>Data model\<close>

text \<open>
  The program is a Streamlit page over a pandas DataFrame (\<^verbatim>\<open>src/01_posbolt2Excel.py\<close>).
  The embedding keeps the DataFrame column-oriented, as pandas does:

  \<^item> a float64/int64 cell is a \<open>float\<close>: a number, or \<open>None\<close> for NaN. Numbers are exact
    reals; rounding and the infinities of IEEE arithmetic are not part of the model;
  \<^item> an object/category column holds keys of one ordered type \<open>'k\<close> (text under the
    lexicographic order, or numbers under the numeric one), or \<open>None\<close> for a missing cell;
  \<^item> an exception raised by Python or pandas is a value \<open>Inl e\<close> of \<open>error + 'a\<close>.
\<close>

datatype error =
  KeyError | TypeError | IndexError | UnboundLocalError | NoValidData | OutOfModel

type_synonym float = "real option"

datatype 'k column = NumCol "float list" | ObjCol "'k option list"

type_synonym 'k dataframe = "(string \<times> 'k column) list"

text \<open>One entry of \<^verbatim>\<open>st.session_state.active_filters\<close>: the dict built by \<^verbatim>\<open>add_new_filter\<close>,
  tagged by its \<^verbatim>\<open>'type'\<close> key.\<close>

datatype 'k filter_info =
    Categorical string "'k list" "'k list"
  | Numeric string float float "float \<times> float"

fun filter_column :: "'k filter_info \<Rightarrow> string" where
  "filter_column (Categorical c av sv) = c"
| "filter_column (Numeric c mn mx r) = c"

text \<open>The domain fields of a spec: \<^verbatim>\<open>all_values\<close>, or \<^verbatim>\<open>min_val\<close> and \<^verbatim>\<open>max_val\<close>.\<close>

datatype 'k domain = CatDomain "'k list" | NumDomain float float

fun filter_domain :: "'k filter_info \<Rightarrow> 'k domain" where
  "filter_domain (Categorical c av sv) = CatDomain av"
| "filter_domain (Numeric c mn mx r) = NumDomain mn mx"

record 'k session_state =
  active_filters :: "'k filter_info list"
  filter_counter :: nat

section \<open>pandas operations used by the program\<close>

text \<open>\<^verbatim>\<open>df[column]\<close>: KeyError when the frame has no such column.\<close>

definition getitem :: "'k dataframe \<Rightarrow> string \<Rightarrow> error + 'k column" where
  "getitem df c = (case map_of df c of None \<Rightarrow> Inl KeyError | Some col \<Rightarrow> Inr col)"

text \<open>Boolean indexing \<^verbatim>\<open>s[mask]\<close> keeps the entries whose mask bit is set, in order.\<close>

definition bool_index :: "bool list \<Rightarrow> 'a list \<Rightarrow> 'a list" where
  "bool_index m xs = map snd (filter fst (zip m xs))"

fun col_index :: "bool list \<Rightarrow> 'k column \<Rightarrow> 'k column" where
  "col_index m (NumCol xs) = NumCol (bool_index m xs)"
| "col_index m (ObjCol xs) = ObjCol (bool_index m xs)"

definition getitem_mask :: "'k dataframe \<Rightarrow> bool list \<Rightarrow> 'k dataframe" where
  "getitem_mask df m = map (\<lambda>(n, c). (n, col_index m c)) df"

text \<open>\<^verbatim>\<open>df.iloc[0:0]\<close>: the same columns, no rows.\<close>

fun col_empty :: "'k column \<Rightarrow> 'k column" where
  "col_empty (NumCol xs) = NumCol []"
| "col_empty (ObjCol xs) = ObjCol []"

definition iloc_empty :: "'k dataframe \<Rightarrow> 'k dataframe" where
  "iloc_empty df = map (\<lambda>(n, c). (n, col_empty c)) df"

fun col_len :: "'k column \<Rightarrow> nat" where
  "col_len (NumCol xs) = length xs"
| "col_len (ObjCol xs) = length xs"

text \<open>\<^verbatim>\<open>df.empty\<close> for a frame that has columns: no rows.\<close>

definition df_empty :: "'k dataframe \<Rightarrow> bool" where
  "df_empty df = list_all (\<lambda>(n, c). col_len c = 0) df"

text \<open>Float comparison: every comparison with NaN is false.\<close>

fun ge :: "float \<Rightarrow> float \<Rightarrow> bool" where
  "ge (Some a) (Some b) = (b \<le> a)"
| "ge x y = False"

fun le :: "float \<Rightarrow> float \<Rightarrow> bool" where
  "le (Some a) (Some b) = (a \<le> b)"
| "le x y = False"

text \<open>
  \<^verbatim>\<open>series >= v\<close> and \<^verbatim>\<open>series <= v\<close> against a float. On an object column pandas compares
  cell by cell: a missing cell gives False, any other cell raises TypeError.
\<close>

fun col_ge :: "'k column \<Rightarrow> float \<Rightarrow> error + bool list" where
  "col_ge (NumCol xs) v = Inr (map (\<lambda>x. ge x v) xs)"
| "col_ge (ObjCol xs) v =
     (if list_ex (\<lambda>x. x \<noteq> None) xs then Inl TypeError else Inr (map (\<lambda>x. False) xs))"

fun col_le :: "'k column \<Rightarrow> float \<Rightarrow> error + bool list" where
  "col_le (NumCol xs) v = Inr (map (\<lambda>x. le x v) xs)"
| "col_le (ObjCol xs) v =
     (if list_ex (\<lambda>x. x \<noteq> None) xs then Inl TypeError else Inr (map (\<lambda>x. False) xs))"

text \<open>
  \<^verbatim>\<open>series.isin(values)\<close>: a missing cell is in no list of keys, and no key equals a cell of
  a float column.
\<close>

fun isin :: "'k column \<Rightarrow> 'k list \<Rightarrow> bool list" where
  "isin (ObjCol xs) vs = map (\<lambda>x. case x of None \<Rightarrow> False | Some k \<Rightarrow> List.member vs k) xs"
| "isin (NumCol xs) vs = map (\<lambda>x. False) xs"

text \<open>\<^verbatim>\<open>series.dropna()\<close>, \<^verbatim>\<open>series.unique()\<close> (first occurrences, in order), \<^verbatim>\<open>series.min()\<close> and
  \<^verbatim>\<open>series.max()\<close> (missing cells skipped, NaN when nothing is left).\<close>

definition dropna :: "'a option list \<Rightarrow> 'a list" where
  "dropna xs = List.map_filter id xs"

definition unique :: "'a list \<Rightarrow> 'a list" where
  "unique xs = rev (remdups (rev xs))"

definition series_min :: "float list \<Rightarrow> float" where
  "series_min xs = (case dropna xs of [] \<Rightarrow> None | y # ys \<Rightarrow> Some (fold min ys y))"

definition series_max :: "float list \<Rightarrow> float" where
  "series_max xs = (case dropna xs of [] \<Rightarrow> None | y # ys \<Rightarrow> Some (fold max ys y))"

section \<open>The filter chain\<close>

text \<open>One iteration of the loop of \<^verbatim>\<open>apply_filters_to_data\<close> and \<^verbatim>\<open>apply_current_filters\<close>
  (the two loop bodies are the same text).\<close>

fun apply_filter :: "'k dataframe \<Rightarrow> 'k filter_info \<Rightarrow> error + 'k dataframe" where
  "apply_filter fdf (Categorical c av sv) =
     (if sv \<noteq> [] then
        (case getitem fdf c of Inl e \<Rightarrow> Inl e
         | Inr col \<Rightarrow> Inr (getitem_mask fdf (isin col sv)))
      else Inr (iloc_empty fdf))"
| "apply_filter fdf (Numeric c mn mx (lo, hi)) =
     (case getitem fdf c of Inl e \<Rightarrow> Inl e
      | Inr col \<Rightarrow>
         (case col_ge col lo of Inl e \<Rightarrow> Inl e
          | Inr m1 \<Rightarrow>
             (case col_le col hi of Inl e \<Rightarrow> Inl e
              | Inr m2 \<Rightarrow> Inr (getitem_mask fdf (map2 (\<and>) m1 m2)))))"

fun apply_filters_to_data :: "'k dataframe \<Rightarrow> 'k filter_info list \<Rightarrow> error + 'k dataframe" where
  "apply_filters_to_data df [] = Inr df"
| "apply_filters_to_data df (f # fs) =
     (case apply_filter df f of Inl e \<Rightarrow> Inl e
      | Inr fdf \<Rightarrow> apply_filters_to_data fdf fs)"

text \<open>\<^verbatim>\<open>apply_current_filters\<close> runs the same loop over the chain held in the session state.\<close>

fun current_loop :: "'k dataframe \<Rightarrow> 'k filter_info list \<Rightarrow> error + 'k dataframe" where
  "current_loop fdf [] = Inr fdf"
| "current_loop fdf (f # fs) =
     (case apply_filter fdf f of Inl e \<Rightarrow> Inl e
      | Inr fdf' \<Rightarrow> current_loop fdf' fs)"

definition apply_current_filters :: "'k session_state \<Rightarrow> 'k dataframe \<Rightarrow> error + 'k dataframe" where
  "apply_current_filters st df = current_loop df (active_filters st)"

text \<open>
  \<^verbatim>\<open>add_new_filter\<close>: the dtype test reads the unfiltered frame, the domain is computed on the
  frame narrowed by the chain, and the new dict is appended. A column of the filtered
  frame has the kind it has in the unfiltered one; the two mixed cases below cannot
  occur and are given the error pandas would raise on such data.
\<close>

definition add_new_filter ::
  "'k::linorder session_state \<Rightarrow> 'k dataframe \<Rightarrow> string \<Rightarrow> error + 'k session_state" where
  "add_new_filter st df c =
     (case apply_current_filters st df of Inl e \<Rightarrow> Inl e
      | Inr filtered_df \<Rightarrow>
         (case getitem df c of Inl e \<Rightarrow> Inl e
          | Inr (ObjCol raw) \<Rightarrow>
             (case getitem filtered_df c of Inl e \<Rightarrow> Inl e
              | Inr (NumCol xs) \<Rightarrow> Inl TypeError
              | Inr (ObjCol xs) \<Rightarrow>
                 (let unique_values = sort (unique (dropna xs)) in
                  Inr (st\<lparr>active_filters := active_filters st
                        @ [Categorical c unique_values unique_values]\<rparr>)))
          | Inr (NumCol raw) \<Rightarrow>
             (case getitem filtered_df c of Inl e \<Rightarrow> Inl e
              | Inr (ObjCol xs) \<Rightarrow> Inl TypeError
              | Inr (NumCol xs) \<Rightarrow>
                 (let min_val = series_min xs; max_val = series_max xs in
                  Inr (st\<lparr>active_filters := active_filters st
                        @ [Numeric c min_val max_val (min_val, max_val)]\<rparr>)))))"

text \<open>The remove button of \<^verbatim>\<open>setup_data_filters_with_button\<close>:
  \<^verbatim>\<open>st.session_state.active_filters.pop(i)\<close>, IndexError when \<open>i\<close> is out of range.\<close>

definition pop :: "nat \<Rightarrow> 'a list \<Rightarrow> error + 'a list" where
  "pop i xs = (if i < length xs then Inr (take i xs @ drop (Suc i) xs) else Inl IndexError)"

definition remove_filter :: "'k session_state \<Rightarrow> nat \<Rightarrow> error + 'k session_state" where
  "remove_filter st i =
     (case pop i (active_filters st) of Inl e \<Rightarrow> Inl e
      | Inr fs \<Rightarrow> Inr (st\<lparr>active_filters := fs\<rparr>))"

text \<open>The add button: \<^verbatim>\<open>add_new_filter\<close>, then the counter is incremented.\<close>

definition add_button :: "'k::linorder session_state \<Rightarrow> 'k dataframe \<Rightarrow> string \<Rightarrow> error + 'k session_state" where
  "add_button st df c =
     (case add_new_filter st df c of Inl e \<Rightarrow> Inl e
      | Inr st' \<Rightarrow> Inr (st'\<lparr>filter_counter := filter_counter st' + 1\<rparr>))"

section \<open>Auxiliary notions for the proofs\<close>

text \<open>A mask covers a list when boolean indexing by it keeps the whole list.\<close>

fun covers :: "bool list \<Rightarrow> 'a list \<Rightarrow> bool" where
  "covers m [] = True"
| "covers [] (x # xs) = False"
| "covers (b # m) (x # xs) = (b \<and> covers m xs)"

text \<open>The mask that one filter computes on a frame; \<open>apply_filter\<close> indexes the frame by it.\<close>

fun filter_mask :: "'k dataframe \<Rightarrow> 'k filter_info \<Rightarrow> error + bool list" where
  "filter_mask df (Categorical c av sv) =
     (if sv \<noteq> [] then (case getitem df c of Inl e \<Rightarrow> Inl e | Inr col \<Rightarrow> Inr (isin col sv))
      else Inr [])"
| "filter_mask df (Numeric c mn mx (lo, hi)) =
     (case getitem df c of Inl e \<Rightarrow> Inl e
      | Inr col \<Rightarrow>
         (case col_ge col lo of Inl e \<Rightarrow> Inl e
          | Inr m1 \<Rightarrow>
             (case col_le col hi of Inl e \<Rightarrow> Inl e
              | Inr m2 \<Rightarrow> Inr (map2 (\<and>) m1 m2))))"


text \<open>A column, or a frame, whose cells all occur in another one of the same kind and
  with the same column names: what row selection produces.\<close>

fun sub_col :: "'k column \<Rightarrow> 'k column \<Rightarrow> bool" where
  "sub_col (NumCol ys) (NumCol xs) = (set ys \<subseteq> set xs)"
| "sub_col (ObjCol ys) (ObjCol xs) = (set ys \<subseteq> set xs)"
| "sub_col (NumCol ys) (ObjCol xs) = False"
| "sub_col (ObjCol ys) (NumCol xs) = False"

definition sub_frame :: "'k dataframe \<Rightarrow> 'k dataframe \<Rightarrow> bool" where
  "sub_frame d df =
     (\<forall>c. case getitem df c of Inl e \<Rightarrow> getitem d c = Inl e
          | Inr col \<Rightarrow> (\<exists>col'. getitem d c = Inr col' \<and> sub_col col' col))"



section \<open>Outlier classification\<close>

text \<open>Float arithmetic and the strict comparisons: NaN propagates, and compares false.\<close>

fun fbin :: "(real \<Rightarrow> real \<Rightarrow> real) \<Rightarrow> float \<Rightarrow> float \<Rightarrow> float" where
  "fbin f (Some a) (Some b) = Some (f a b)"
| "fbin f u v = None"

fun lt :: "float \<Rightarrow> float \<Rightarrow> bool" where
  "lt (Some a) (Some b) = (a < b)"
| "lt u v = False"

fun gt :: "float \<Rightarrow> float \<Rightarrow> bool" where
  "gt (Some a) (Some b) = (b < a)"
| "gt u v = False"

text \<open>
  \<^verbatim>\<open>series.quantile(q)\<close> on a series without missing cells (the program calls it after
  \<^verbatim>\<open>dropna\<close>): linear interpolation between the two order statistics around position
  \<open>(n - 1) * q\<close>, NaN on an empty series.
\<close>

definition quantile :: "real list \<Rightarrow> real \<Rightarrow> float" where
  "quantile data q =
     (if data = [] then None
      else let s = sort data;
               h = real (length s - 1) * q;
               i = nat \<lfloor>h\<rfloor>;
               frac = h - real i
           in Some (if Suc i < length s then s ! i + frac * (s ! Suc i - s ! i) else s ! i))"

text \<open>
  The block that \<^verbatim>\<open>create_boxplot\<close> repeats for the whole column, for each group and for
  each (colour, group) cell: quartiles, fence, then the two boolean selections. It yields
  \<^verbatim>\<open>normal_data\<close>, \<^verbatim>\<open>outliers\<close> and the fence (\<^verbatim>\<open>lower_bound\<close>, \<^verbatim>\<open>upper_bound\<close>).
\<close>

definition classify :: "real list \<Rightarrow> real list \<times> real list \<times> float \<times> float" where
  "classify data =
     (let Q1 = quantile data (1/4);
          Q3 = quantile data (3/4);
          IQR = fbin (-) Q3 Q1;
          lower_bound = fbin (-) Q1 (fbin (*) (Some (3/2)) IQR);
          upper_bound = fbin (+) Q3 (fbin (*) (Some (3/2)) IQR);
          outliers = filter (\<lambda>v. lt (Some v) lower_bound \<or> gt (Some v) upper_bound) data;
          normal_data = filter (\<lambda>v. ge (Some v) lower_bound \<and> le (Some v) upper_bound) data
      in (normal_data, outliers, lower_bound, upper_bound))"

section \<open>The Series Assembler: \<^verbatim>\<open>create_boxplot\<close>\<close>

text \<open>
  What \<^verbatim>\<open>create_boxplot\<close> hands to the plotting library is the list of traces it adds to the
  figure. A trace keeps its semantic role, its x and y data, its colour, its legend flag,
  its offset group and (for a box) the \<^verbatim>\<open>boxmean\<close> flag; names, marker sizes and symbols,
  hover texts and the layout are presentation and are left out. An x value is a group key
  or, in the single-box plot, the name of the value column.
\<close>

datatype role = BoxSummary | NormalPoints | OutlierPoints | MeanMarker

datatype 'k axis_value = Name string | Key 'k

record 'k trace =
  t_role :: role
  t_x :: "'k axis_value list option"
  t_y :: "real list"
  t_color :: string
  t_showlegend :: bool
  t_offsetgroup :: "'k option"
  t_boxmean :: bool

text \<open>
  \<^verbatim>\<open>df[[...]].dropna()\<close>: the selected columns, without the rows that miss a cell in one of
  them. The value column is a float column and the group and colour columns are object
  columns: the selectors of the page offer no other choice, and any other combination is
  reported as \<open>OutOfModel\<close>.
\<close>

fun both :: "'a option \<times> 'b option \<Rightarrow> ('a \<times> 'b) option" where
  "both (Some a, Some b) = Some (a, b)"
| "both (u, v) = None"

definition project1 :: "'k dataframe \<Rightarrow> string \<Rightarrow> error + real list" where
  "project1 df y_column =
     (case getitem df y_column of Inl e \<Rightarrow> Inl e
      | Inr (ObjCol ys) \<Rightarrow> Inl OutOfModel
      | Inr (NumCol ys) \<Rightarrow> Inr (dropna ys))"

definition project2 :: "'k dataframe \<Rightarrow> string \<Rightarrow> string \<Rightarrow> error + (real \<times> 'k) list" where
  "project2 df y_column x_column =
     (case getitem df y_column of Inl e \<Rightarrow> Inl e
      | Inr (ObjCol ys) \<Rightarrow> Inl OutOfModel
      | Inr (NumCol ys) \<Rightarrow>
         (case getitem df x_column of Inl e \<Rightarrow> Inl e
          | Inr (NumCol ks) \<Rightarrow> Inl OutOfModel
          | Inr (ObjCol ks) \<Rightarrow> Inr (List.map_filter both (zip ys ks))))"

fun all3 :: "'a option \<times> 'b option \<times> 'c option \<Rightarrow> ('a \<times> 'b \<times> 'c) option" where
  "all3 (Some a, Some b, Some c) = Some (a, b, c)"
| "all3 (u, v, w) = None"

definition project3 ::
  "'k dataframe \<Rightarrow> string \<Rightarrow> string \<Rightarrow> string \<Rightarrow> error + (real \<times> 'k \<times> 'k) list" where
  "project3 df y_column x_column color_column =
     (case getitem df y_column of Inl e \<Rightarrow> Inl e
      | Inr (ObjCol ys) \<Rightarrow> Inl OutOfModel
      | Inr (NumCol ys) \<Rightarrow>
         (case getitem df x_column of Inl e \<Rightarrow> Inl e
          | Inr (NumCol ks) \<Rightarrow> Inl OutOfModel
          | Inr (ObjCol ks) \<Rightarrow>
             (case getitem df color_column of Inl e \<Rightarrow> Inl e
              | Inr (NumCol cs) \<Rightarrow> Inl OutOfModel
              | Inr (ObjCol cs) \<Rightarrow> Inr (List.map_filter all3 (zip ys (zip ks cs))))))"

text \<open>\<^verbatim>\<open>sorted(series.unique())\<close> and \<^verbatim>\<open>series.mean()\<close> (called on non-empty series only).\<close>

definition sorted_unique :: "'a::linorder list \<Rightarrow> 'a list" where
  "sorted_unique xs = sort (unique xs)"

definition mean :: "real list \<Rightarrow> real" where
  "mean vs = sum_list vs / real (length vs)"

text \<open>
  The branch \<^verbatim>\<open>x_column == none\<close>. The names \<^verbatim>\<open>group_data\<close> and \<^verbatim>\<open>group\<close> are local variables
  of \<^verbatim>\<open>create_boxplot\<close> that only the grouped branch assigns; on this path they are unbound,
  and reading one raises UnboundLocalError.
\<close>

definition single_box :: "string \<Rightarrow> real list \<Rightarrow> bool \<Rightarrow> bool \<Rightarrow> error + 'k trace list" where
  "single_box y_column data show_points show_mean =
     (case classify data of (normal_data, outliers, fence) \<Rightarrow>
        let box = \<lparr>t_role = BoxSummary, t_x = None, t_y = data,
                   t_color = ''rgba(200,200,200,0.3)'', t_showlegend = False,
                   t_offsetgroup = None, t_boxmean = False\<rparr>;
            points =
              (if show_points then
                 \<lparr>t_role = NormalPoints, t_x = Some (map (\<lambda>v. Name y_column) normal_data),
                  t_y = normal_data, t_color = ''gray'', t_showlegend = True,
                  t_offsetgroup = None, t_boxmean = False\<rparr>
                 # (if outliers \<noteq> [] then
                      [\<lparr>t_role = OutlierPoints, t_x = Some (map (\<lambda>v. Name y_column) outliers),
                        t_y = outliers, t_color = ''yellow'', t_showlegend = True,
                        t_offsetgroup = None, t_boxmean = False\<rparr>]
                    else [])
               else []);
            group_data = (None :: real list option);
            grp = (None :: 'k option)
        in if show_mean then
             (case group_data of None \<Rightarrow> Inl UnboundLocalError
              | Some gd \<Rightarrow>
                 (case grp of None \<Rightarrow> Inl UnboundLocalError
                  | Some g \<Rightarrow>
                     Inr (box # points @
                       [\<lparr>t_role = MeanMarker, t_x = Some [Key g], t_y = [mean gd],
                         t_color = ''black'', t_showlegend = False,
                         t_offsetgroup = None, t_boxmean = False\<rparr>])))
           else Inr (box # points))"

text \<open>The branch with a group column and no colour column. Rows are (value, group).\<close>

definition group_points :: "(real \<times> 'k) list \<Rightarrow> nat \<times> 'k \<Rightarrow> 'k trace list" where
  "group_points plot_df ig =
     (case ig of (i, grp) \<Rightarrow>
        let group_data = map fst (filter (\<lambda>r. snd r = grp) plot_df) in
        if group_data = [] then []
        else (case classify group_data of (normal_data, outliers, fence) \<Rightarrow>
          (if normal_data \<noteq> [] then
             [\<lparr>t_role = NormalPoints, t_x = Some (map (\<lambda>v. Key grp) normal_data),
               t_y = normal_data, t_color = ''gray'', t_showlegend = (i = 0),
               t_offsetgroup = None, t_boxmean = False\<rparr>]
           else [])
          @ (if outliers \<noteq> [] then
               [\<lparr>t_role = OutlierPoints, t_x = Some (map (\<lambda>v. Key grp) outliers),
                 t_y = outliers, t_color = ''yellow'', t_showlegend = (i = 0),
                 t_offsetgroup = None, t_boxmean = False\<rparr>]
             else [])))"

definition group_mean :: "(real \<times> 'k) list \<Rightarrow> nat \<times> 'k \<Rightarrow> 'k trace list" where
  "group_mean plot_df ig =
     (case ig of (i, grp) \<Rightarrow>
        let group_data = map fst (filter (\<lambda>r. snd r = grp) plot_df) in
        if group_data = [] then []
        else [\<lparr>t_role = MeanMarker, t_x = Some [Key grp], t_y = [mean group_data],
                t_color = ''White'', t_showlegend = (i = 0),
                t_offsetgroup = None, t_boxmean = False\<rparr>])"

definition grouped_boxes ::
  "(real \<times> 'k::linorder) list \<Rightarrow> bool \<Rightarrow> bool \<Rightarrow> 'k trace list" where
  "grouped_boxes plot_df show_points show_mean =
     (let groups = sorted_unique (map snd plot_df);
          box = \<lparr>t_role = BoxSummary, t_x = Some (map (\<lambda>r. Key (snd r)) plot_df),
                 t_y = map fst plot_df, t_color = ''rgba(200,200,200,0.3)'',
                 t_showlegend = False, t_offsetgroup = None, t_boxmean = False\<rparr>
      in box
         # (if show_points then concat (map (group_points plot_df) (enumerate 0 groups)) else [])
         @ (if show_mean then concat (map (group_mean plot_df) (enumerate 0 groups)) else []))"

text \<open>
  The branch with a group column and a colour column. Rows are (value, group, colour).
  \<^verbatim>\<open>color_map\<close> pairs the i-th sorted colour value with \<^verbatim>\<open>colors[i]\<close>, where \<^verbatim>\<open>colors\<close> is the
  palette cut to the number of colour values; \<^verbatim>\<open>colors[i]\<close> raises IndexError past its end.
  The loop over the colour values reads its colour from the map; the model walks the
  pairs of the map, which are in the order of the sorted colour values.
\<close>

fun build_color_map :: "'k list \<Rightarrow> string list \<Rightarrow> error + ('k \<times> string) list" where
  "build_color_map [] colors = Inr []"
| "build_color_map (g # gs) [] = Inl IndexError"
| "build_color_map (g # gs) (c # cs) =
     (case build_color_map gs cs of Inl e \<Rightarrow> Inl e | Inr m \<Rightarrow> Inr ((g, c) # m))"

definition cell_points ::
  "(real \<times> 'k \<times> 'k) list \<Rightarrow> 'k \<Rightarrow> string \<Rightarrow> 'k \<Rightarrow> 'k trace list" where
  "cell_points color_data color_group col grp =
     (let group_color_data = map fst (filter (\<lambda>r. fst (snd r) = grp) color_data) in
      if group_color_data = [] then []
      else (case classify group_color_data of (normal_data, outliers, fence) \<Rightarrow>
        (if normal_data \<noteq> [] then
           [\<lparr>t_role = NormalPoints, t_x = Some (map (\<lambda>v. Key grp) normal_data),
             t_y = normal_data, t_color = col, t_showlegend = False,
             t_offsetgroup = Some color_group, t_boxmean = False\<rparr>]
         else [])
        @ (if outliers \<noteq> [] then
             [\<lparr>t_role = OutlierPoints, t_x = Some (map (\<lambda>v. Key grp) outliers),
               t_y = outliers, t_color = ''yellow'', t_showlegend = False,
               t_offsetgroup = Some color_group, t_boxmean = False\<rparr>]
           else [])))"

definition color_traces ::
  "(real \<times> 'k \<times> 'k) list \<Rightarrow> 'k list \<Rightarrow> bool \<Rightarrow> bool \<Rightarrow> 'k \<times> string \<Rightarrow> 'k trace list" where
  "color_traces plot_df groups show_points show_mean gc =
     (case gc of (color_group, col) \<Rightarrow>
        let color_data = filter (\<lambda>r. snd (snd r) = color_group) plot_df in
        if color_data = [] then []
        else \<lparr>t_role = BoxSummary, t_x = Some (map (\<lambda>r. Key (fst (snd r))) color_data),
               t_y = map fst color_data, t_color = col, t_showlegend = True,
               t_offsetgroup = Some color_group, t_boxmean = show_mean\<rparr>
             # (if show_points
                then concat (map (cell_points color_data color_group col) groups)
                else []))"

definition colored_boxes ::
  "string list \<Rightarrow> (real \<times> 'k::linorder \<times> 'k) list \<Rightarrow> bool \<Rightarrow> bool \<Rightarrow> error + 'k trace list" where
  "colored_boxes palette plot_df show_points show_mean =
     (let color_groups = sorted_unique (map (\<lambda>r. snd (snd r)) plot_df);
          colors = take (length color_groups) palette
      in case build_color_map color_groups colors of Inl e \<Rightarrow> Inl e
         | Inr color_map \<Rightarrow>
            let groups = sorted_unique (map (\<lambda>r. fst (snd r)) plot_df)
            in Inr (concat (map (color_traces plot_df groups show_points show_mean) color_map)))"

text \<open>
  \<^verbatim>\<open>create_boxplot\<close>. The palette \<^verbatim>\<open>EXTENDED_COLORS\<close> is built from constants of the plotting
  library and is a parameter here. \<open>None\<close> for a column stands for the menu entry "none".
  An empty \<^verbatim>\<open>plot_df\<close> ends the function with an error message and no figure
  (\<open>NoValidData\<close>).
\<close>

definition create_boxplot ::
  "string list \<Rightarrow> 'k::linorder dataframe \<Rightarrow> string \<Rightarrow> string option \<Rightarrow> string option
     \<Rightarrow> bool \<Rightarrow> bool \<Rightarrow> error + 'k trace list" where
  "create_boxplot palette df y_column x_column color_column show_points show_mean =
     (case x_column of
        None \<Rightarrow>
          (case project1 df y_column of Inl e \<Rightarrow> Inl e
           | Inr data \<Rightarrow>
              if data = [] then Inl NoValidData
              else single_box y_column data show_points show_mean)
      | Some xc \<Rightarrow>
          (case color_column of
             None \<Rightarrow>
               (case project2 df y_column xc of Inl e \<Rightarrow> Inl e
                | Inr plot_df \<Rightarrow>
                   if plot_df = [] then Inl NoValidData
                   else Inr (grouped_boxes plot_df show_points show_mean))
           | Some cc \<Rightarrow>
               (case project3 df y_column xc cc of Inl e \<Rightarrow> Inl e
                | Inr plot_df \<Rightarrow>
                   if plot_df = [] then Inl NoValidData
                   else colored_boxes palette plot_df show_points show_mean)))"

text \<open>
  The palette of the program: the qualitative colour scales Set1, Set2, Set3, Pastel1 and
  Pastel2 of the plotting library, concatenated (9 + 8 + 12 + 9 + 8 = 46 colours).
\<close>

definition EXTENDED_COLORS :: "string list" where
  "EXTENDED_COLORS =
    [''rgb(228,26,28)'', ''rgb(55,126,184)'', ''rgb(77,175,74)'', ''rgb(152,78,163)'',
     ''rgb(255,127,0)'', ''rgb(255,255,51)'', ''rgb(166,86,40)'', ''rgb(247,129,191)'',
     ''rgb(153,153,153)'', ''rgb(102,194,165)'', ''rgb(252,141,98)'', ''rgb(141,160,203)'',
     ''rgb(231,138,195)'', ''rgb(166,216,84)'', ''rgb(255,217,47)'', ''rgb(229,196,148)'',
     ''rgb(179,179,179)'', ''rgb(141,211,199)'', ''rgb(255,255,179)'', ''rgb(190,186,218)'',
     ''rgb(251,128,114)'', ''rgb(128,177,211)'', ''rgb(253,180,98)'', ''rgb(179,222,105)'',
     ''rgb(252,205,229)'', ''rgb(217,217,217)'', ''rgb(188,128,189)'', ''rgb(204,235,197)'',
     ''rgb(255,237,111)'', ''rgb(251,180,174)'', ''rgb(179,205,227)'', ''rgb(204,235,197)'',
     ''rgb(222,203,228)'', ''rgb(254,217,166)'', ''rgb(255,255,204)'', ''rgb(229,216,189)'',
     ''rgb(253,218,236)'', ''rgb(242,242,242)'', ''rgb(179,226,205)'', ''rgb(253,205,172)'',
     ''rgb(203,213,232)'', ''rgb(244,202,228)'', ''rgb(230,245,201)'', ''rgb(255,242,174)'',
     ''rgb(241,226,204)'', ''rgb(204,204,204)'']"

section \<open>The Grouped Aggregator: \<^verbatim>\<open>show_statistics\<close>\<close>










section \<open>Properties of the filter chain\<close>

lemma current_loop_eq: "current_loop df fs = apply_filters_to_data df fs"
  by (induction fs arbitrary: df) (auto split: sum.splits)

lemma bool_index_Nil [simp]: "bool_index [] xs = []" "bool_index m [] = []"
  by (simp_all add: bool_index_def)

lemma bool_index_Cons [simp]:
  "bool_index (b # m) (x # xs) = (if b then x # bool_index m xs else bool_index m xs)"
  by (simp add: bool_index_def)

lemma bool_index_map: "bool_index m (map f xs) = map f (bool_index m xs)"
  by (induction m xs rule: list_induct2') auto

lemma bool_index_self: "bool_index (map p xs) xs = filter p xs"
  by (induction xs) auto

lemma length_bool_index: "length (bool_index m xs) \<le> length xs"
  by (induction m xs rule: list_induct2') simp_all

lemma bool_index_neq_Cons: "bool_index m xs \<noteq> x # xs"
proof
  assume "bool_index m xs = x # xs"
  then have "length (bool_index m xs) = Suc (length xs)" by simp
  with length_bool_index[of m xs] show False by simp
qed

lemma covers_iff: "covers m xs \<longleftrightarrow> bool_index m xs = xs"
  by (induction m xs rule: covers.induct) (simp_all add: bool_index_neq_Cons)

lemma covers_bool_index: "covers mk xs \<Longrightarrow> covers (bool_index m mk) (bool_index m xs)"
proof (induction m arbitrary: mk xs)
  case Nil
  then show ?case by simp
next
  case (Cons b m)
  show ?case
  proof (cases xs)
    case Nil
    then show ?thesis by simp
  next
    case xs: (Cons x xs')
    with Cons.prems obtain mk' where mk: "mk = True # mk'" and c: "covers mk' xs'"
      by (cases mk) simp_all
    from Cons.IH[OF c] show ?thesis by (simp add: xs mk)
  qed
qed

lemma covers_self: "covers (bool_index m m) (bool_index m xs)"
  by (induction m xs rule: list_induct2') simp_all

lemma col_empty_index: "col_empty c = col_index [] c"
  by (cases c) simp_all

lemma iloc_empty_mask: "iloc_empty df = getitem_mask df []"
  by (simp add: iloc_empty_def getitem_mask_def col_empty_index)

lemma apply_filter_mask:
  "apply_filter df f =
     (case filter_mask df f of Inl e \<Rightarrow> Inl e | Inr m \<Rightarrow> Inr (getitem_mask df m))"
  by (cases f) (auto simp: iloc_empty_mask split: sum.splits)

lemma getitem_getitem_mask:
  "getitem (getitem_mask df m) c =
     (case getitem df c of Inl e \<Rightarrow> Inl e | Inr col \<Rightarrow> Inr (col_index m col))"
  by (simp add: getitem_def getitem_mask_def map_of_map split: option.splits)

lemma isin_col_index: "isin (col_index m col) sv = bool_index m (isin col sv)"
  by (cases col) (simp_all add: bool_index_map)

lemma set_bool_index: "set (bool_index m xs) \<subseteq> set xs"
  by (induction m xs rule: list_induct2') auto

lemma col_ge_col_index:
  "col_ge col v = Inr m1 \<Longrightarrow> col_ge (col_index m col) v = Inr (bool_index m m1)"
  by (cases col)
     (auto simp: bool_index_map list_ex_iff split: if_splits dest: set_bool_index[THEN subsetD])

lemma col_le_col_index:
  "col_le col v = Inr m1 \<Longrightarrow> col_le (col_index m col) v = Inr (bool_index m m1)"
  by (cases col)
     (auto simp: bool_index_map list_ex_iff split: if_splits dest: set_bool_index[THEN subsetD])

lemma bool_index_zip: "bool_index m (zip xs ys) = zip (bool_index m xs) (bool_index m ys)"
proof (induction m arbitrary: xs ys)
  case Nil then show ?case by simp
next
  case (Cons b m) then show ?case by (cases xs; cases ys) auto
qed

lemma bool_index_map2:
  "bool_index m (map2 f xs ys) = map2 f (bool_index m xs) (bool_index m ys)"
  by (simp add: bool_index_map bool_index_zip)

lemma filter_mask_getitem_mask:
  assumes "filter_mask df f = Inr mk"
  shows "filter_mask (getitem_mask df m) f = Inr (bool_index m mk)"
proof (cases f)
  case (Categorical c av sv)
  with assms show ?thesis
    by (auto simp: getitem_getitem_mask isin_col_index split: sum.splits if_splits)
next
  case (Numeric c mn mx r)
  obtain lo hi where r: "r = (lo, hi)" by (cases r)
  from assms Numeric r obtain col m1 m2 where
    col: "getitem df c = Inr col" and m1: "col_ge col lo = Inr m1"
    and m2: "col_le col hi = Inr m2" and mk: "mk = map2 (\<and>) m1 m2"
    by (auto split: sum.splits)
  show ?thesis
    using col col_ge_col_index[OF m1, of m] col_le_col_index[OF m2, of m]
    by (simp add: Numeric r getitem_getitem_mask mk bool_index_map2)
qed

lemma bool_index_stable:
  "bool_index mk xs = xs \<Longrightarrow> bool_index (bool_index m mk) (bool_index m xs) = bool_index m xs"
  using covers_bool_index[of mk xs m] by (simp add: covers_iff)

lemma bool_index_self_stable:
  "bool_index (bool_index m m) (bool_index m xs) = bool_index m xs"
  using covers_self[of m xs] by (simp add: covers_iff)

lemma col_index_covers:
  "col_index mk c = c \<Longrightarrow> col_index (bool_index m mk) (col_index m c) = col_index m c"
  by (cases c) (simp_all add: bool_index_stable)

lemma col_index_self: "col_index (bool_index m m) (col_index m c) = col_index m c"
  by (cases c) (simp_all add: bool_index_self_stable)

lemma getitem_mask_stable:
  "getitem_mask df mk = df \<Longrightarrow>
     getitem_mask (getitem_mask df m) (bool_index m mk) = getitem_mask df m"
proof (induction df)
  case Nil then show ?case by (simp add: getitem_mask_def)
next
  case (Cons a df) then show ?case
    by (cases a) (auto simp: getitem_mask_def col_index_covers)
qed

lemma getitem_mask_self:
  "getitem_mask (getitem_mask df m) (bool_index m m) = getitem_mask df m"
  by (induction df) (auto simp: getitem_mask_def col_index_self)

lemma apply_filter_idem:
  assumes "apply_filter df f = Inr df'"
  shows "apply_filter df' f = Inr df'"
proof -
  from assms obtain mk where mk: "filter_mask df f = Inr mk" and df': "df' = getitem_mask df mk"
    by (auto simp: apply_filter_mask split: sum.splits)
  show ?thesis
    using filter_mask_getitem_mask[OF mk, of mk]
    by (simp add: apply_filter_mask df' getitem_mask_self)
qed

lemma apply_filter_stable:
  assumes "apply_filter df f = Inr df" and "apply_filter df g = Inr df'"
  shows "apply_filter df' f = Inr df'"
proof -
  from assms(1) obtain mk where mk: "filter_mask df f = Inr mk" "getitem_mask df mk = df"
    by (auto simp: apply_filter_mask split: sum.splits)
  from assms(2) obtain m where m: "df' = getitem_mask df m"
    by (auto simp: apply_filter_mask split: sum.splits)
  show ?thesis
    using filter_mask_getitem_mask[OF mk(1), of m] getitem_mask_stable[OF mk(2), of m]
    by (simp add: apply_filter_mask m)
qed

lemma apply_filters_stable:
  "apply_filter df f = Inr df \<Longrightarrow> apply_filters_to_data df gs = Inr df' \<Longrightarrow>
     apply_filter df' f = Inr df'"
proof (induction gs arbitrary: df)
  case Nil then show ?case by simp
next
  case (Cons g gs)
  from Cons.prems(2) obtain df1 where 1: "apply_filter df g = Inr df1"
    and 2: "apply_filters_to_data df1 gs = Inr df'"
    by (auto split: sum.splits)
  from apply_filter_stable[OF Cons.prems(1) 1] 2 show ?case by (rule Cons.IH)
qed

text \<open>
  C7. Evaluation is idempotent: when \<^verbatim>\<open>apply_filters_to_data\<close> returns a frame for a dataset
  and a chain, applying the same chain to that frame returns the frame unchanged.
\<close>

theorem evaluate_idempotent:
  "apply_filters_to_data df fs = Inr df' \<Longrightarrow> apply_filters_to_data df' fs = Inr df'"
proof (induction fs arbitrary: df)
  case Nil then show ?case by simp
next
  case (Cons f fs)
  from Cons.prems obtain df1 where 1: "apply_filter df f = Inr df1"
    and 2: "apply_filters_to_data df1 fs = Inr df'"
    by (auto split: sum.splits)
  have "apply_filter df' f = Inr df'"
    using apply_filter_idem[OF 1] 2 by (rule apply_filters_stable)
  moreover have "apply_filters_to_data df' fs = Inr df'"
    using 2 by (rule Cons.IH)
  ultimately show ?case by simp
qed

theorem evaluate_idempotent_witness:
  "apply_filters_to_data
     [(''g'', ObjCol [Some ''X'', Some ''X'', Some ''Y'']),
      (''v'', NumCol [Some 1, Some 2, Some 100])]
     [Categorical ''g'' [''X'', ''Y''] [''Y''], Numeric ''v'' (Some 1) (Some 100) (Some 50, Some 100)]
   = Inr [(''g'', ObjCol [Some ''Y'']), (''v'', NumCol [Some 100])]
   \<and> apply_filters_to_data
     [(''g'', ObjCol [Some ''Y'']), (''v'', NumCol [Some 100])]
     [Categorical ''g'' [''X'', ''Y''] [''Y''], Numeric ''v'' (Some 1) (Some 100) (Some 50, Some 100)]
   = Inr [(''g'', ObjCol [Some ''Y'']), (''v'', NumCol [Some (100::real)])]"
proof -
  have h: "apply_filters_to_data
     [(''g'', ObjCol [Some ''X'', Some ''X'', Some ''Y'']),
      (''v'', NumCol [Some 1, Some 2, Some 100])]
     [Categorical ''g'' [''X'', ''Y''] [''Y''], Numeric ''v'' (Some 1) (Some 100) (Some 50, Some 100)]
   = Inr [(''g'', ObjCol [Some ''Y'']), (''v'', NumCol [Some 100])]"
    by (simp add: getitem_def getitem_mask_def)
  from evaluate_idempotent[OF h] h show ?thesis by simp
qed

lemma sub_col_refl: "sub_col c c"
  by (cases c) simp_all

lemma sub_col_trans: "sub_col a b \<Longrightarrow> sub_col b c \<Longrightarrow> sub_col a c"
  by (cases a; cases b; cases c) auto

lemma sub_col_index: "sub_col (col_index m col) col"
  by (cases col) (auto dest: set_bool_index[THEN subsetD])

lemma sub_frame_Inl:
  assumes "sub_frame d df" and "getitem df c = Inl e"
  shows "getitem d c = Inl e"
proof -
  from assms(1) have "case getitem df c of Inl e \<Rightarrow> getitem d c = Inl e
      | Inr col \<Rightarrow> (\<exists>col'. getitem d c = Inr col' \<and> sub_col col' col)"
    unfolding sub_frame_def by (rule spec)
  with assms(2) show ?thesis by simp
qed

lemma sub_frame_Inr:
  assumes "sub_frame d df" and "getitem df c = Inr col"
  shows "\<exists>col'. getitem d c = Inr col' \<and> sub_col col' col"
proof -
  from assms(1) have "case getitem df c of Inl e \<Rightarrow> getitem d c = Inl e
      | Inr col \<Rightarrow> (\<exists>col'. getitem d c = Inr col' \<and> sub_col col' col)"
    unfolding sub_frame_def by (rule spec)
  with assms(2) show ?thesis by simp
qed

lemma sub_frame_refl: "sub_frame df df"
  by (auto simp: sub_frame_def sub_col_refl split: sum.splits)

lemma sub_frame_trans:
  assumes "sub_frame a b" and "sub_frame b c"
  shows "sub_frame a c"
  unfolding sub_frame_def
proof
  fix n
  show "case getitem c n of Inl e \<Rightarrow> getitem a n = Inl e
        | Inr col \<Rightarrow> \<exists>col'. getitem a n = Inr col' \<and> sub_col col' col"
  proof (cases "getitem c n")
    case (Inl e)
    from sub_frame_Inl[OF assms(1) sub_frame_Inl[OF assms(2) Inl]] Inl show ?thesis by simp
  next
    case (Inr col)
    from sub_frame_Inr[OF assms(2) Inr] obtain colb
      where b: "getitem b n = Inr colb" "sub_col colb col" by blast
    from sub_frame_Inr[OF assms(1) b(1)] obtain cola
      where a: "getitem a n = Inr cola" "sub_col cola colb" by blast
    from sub_col_trans[OF a(2) b(2)] a(1) Inr show ?thesis by simp
  qed
qed

lemma sub_frame_getitem_mask: "sub_frame (getitem_mask df m) df"
  by (auto simp: sub_frame_def getitem_getitem_mask sub_col_index split: sum.splits)

lemma apply_filter_sub_frame: "apply_filter df f = Inr d \<Longrightarrow> sub_frame d df"
  by (auto simp: apply_filter_mask sub_frame_getitem_mask split: sum.splits)

lemma apply_filters_sub_frame: "apply_filters_to_data df fs = Inr d \<Longrightarrow> sub_frame d df"
proof (induction fs arbitrary: df)
  case Nil
  then show ?case by (simp add: sub_frame_refl)
next
  case (Cons f fs)
  from Cons.prems obtain d1 where d1: "apply_filter df f = Inr d1"
    and r: "apply_filters_to_data d1 fs = Inr d"
    by (auto split: sum.splits)
  from Cons.IH[OF r] apply_filter_sub_frame[OF d1] show ?case by (rule sub_frame_trans)
qed

lemma sub_frame_Inr_rev:
  assumes "sub_frame d df" and "getitem d c = Inr col'"
  shows "\<exists>col. getitem df c = Inr col \<and> sub_col col' col"
proof (cases "getitem df c")
  case (Inl e)
  from sub_frame_Inl[OF assms(1) Inl] assms(2) show ?thesis by simp
next
  case (Inr col)
  from sub_frame_Inr[OF assms(1) Inr] assms(2) Inr show ?thesis by auto
qed

lemma apply_filters_append:
  "apply_filters_to_data df (fs @ gs) =
     (case apply_filters_to_data df fs of Inl e \<Rightarrow> Inl e
      | Inr d \<Rightarrow> apply_filters_to_data d gs)"
  by (induction fs arbitrary: df) (simp_all split: sum.splits)

lemma ge_None [simp]: "ge x None = False"
  by (cases x) simp_all

lemma le_None [simp]: "le x None = False"
  by (cases x) simp_all


lemma all_False_mask:
  "map2 (\<and>) (map (\<lambda>x. False) xs) (map (\<lambda>x. False) xs) = map (\<lambda>x. False) xs"
  by (induction xs) simp_all

lemma bool_index_all_False: "bool_index (map (\<lambda>x. False) ys) xs = []"
  by (induction ys xs rule: list_induct2') simp_all

lemma col_len_all_False: "col_len (col_index (map (\<lambda>x. False) ys) c) = 0"
  by (cases c) (simp_all add: bool_index_all_False)

lemma df_empty_all_False: "df_empty (getitem_mask df (map (\<lambda>x. False) ys))"
  by (induction df) (auto simp: df_empty_def getitem_mask_def col_len_all_False)



text \<open>
  C5. Removing the filter at a valid index deletes exactly that entry: every remaining spec,
  and so its domain (\<^verbatim>\<open>all_values\<close>, or \<^verbatim>\<open>min_val\<close> and \<^verbatim>\<open>max_val\<close>), is the one it was before,
  at its old position before the index and one position earlier after it.
\<close>

theorem remove_filter_keeps_domains:
  assumes "i < length (active_filters st)"
  shows "\<exists>st'. remove_filter st i = Inr st'
     \<and> Suc (length (active_filters st')) = length (active_filters st)
     \<and> (\<forall>j<length (active_filters st').
          active_filters st' ! j = active_filters st ! (if j < i then j else Suc j)
          \<and> filter_domain (active_filters st' ! j)
              = filter_domain (active_filters st ! (if j < i then j else Suc j)))"
proof -
  let ?fs = "active_filters st"
  let ?st' = "st\<lparr>active_filters := take i ?fs @ drop (Suc i) ?fs\<rparr>"
  have r: "remove_filter st i = Inr ?st'"
    using assms by (simp add: remove_filter_def pop_def)
  have l: "Suc (length (active_filters ?st')) = length ?fs"
    using assms by simp
  have n: "active_filters ?st' ! j = ?fs ! (if j < i then j else Suc j)"
    if "j < length (active_filters ?st')" for j
    using that assms by (simp add: nth_append min_def)
  from r l n show ?thesis by metis
qed

theorem remove_filter_keeps_domains_witness:
  "remove_filter
     \<lparr>active_filters = [Categorical ''g'' [''X'', ''Y''] [''X''],
                        Numeric ''v'' (Some 1) (Some 2) (Some 1, Some (2::real))],
      filter_counter = 2\<rparr> 0
   = Inr \<lparr>active_filters = [Numeric ''v'' (Some 1) (Some 2) (Some 1, Some 2)],
          filter_counter = 2\<rparr>"
proof -
  have h: "0 < length (active_filters
     \<lparr>active_filters = [Categorical ''g'' [''X'', ''Y''] [''X''],
                        Numeric ''v'' (Some 1) (Some 2) (Some 1, Some (2::real))],
      filter_counter = 2\<rparr>)"
    by simp
  from remove_filter_keeps_domains[OF h] obtain st' where
    "remove_filter
     \<lparr>active_filters = [Categorical ''g'' [''X'', ''Y''] [''X''],
                        Numeric ''v'' (Some 1) (Some 2) (Some 1, Some (2::real))],
      filter_counter = 2\<rparr> 0 = Inr st'"
    by blast
  then show ?thesis by (simp add: remove_filter_def pop_def)
qed

text \<open>
  C10. When the column of the narrowed frame has no non-missing value, \<^verbatim>\<open>add_new_filter\<close> on
  a numeric column raises nothing: the bounds and the selected range of the new spec are
  NaN, and evaluating the chain with that spec on the dataset returns a frame without rows.
\<close>

theorem add_new_filter_nan:
  assumes "apply_current_filters st df = Inr fdf"
    and "getitem fdf c = Inr (NumCol xs)"
    and "dropna xs = []"
  shows "add_new_filter st df c =
       Inr (st\<lparr>active_filters := active_filters st @ [Numeric c None None (None, None)]\<rparr>)
     \<and> (\<exists>r. apply_filters_to_data df (active_filters st @ [Numeric c None None (None, None)])
            = Inr r \<and> df_empty r)"
proof -
  have e: "apply_filters_to_data df (active_filters st) = Inr fdf"
    using assms(1) by (simp add: apply_current_filters_def current_loop_eq)
  then have "sub_frame fdf df" by (rule apply_filters_sub_frame)
  from sub_frame_Inr_rev[OF this assms(2)] obtain col
    where col: "getitem df c = Inr col" "sub_col (NumCol xs) col" by blast
  then obtain raw where raw: "col = NumCol raw" by (cases col) simp_all
  have a: "add_new_filter st df c =
       Inr (st\<lparr>active_filters := active_filters st @ [Numeric c None None (None, None)]\<rparr>)"
    by (simp add: add_new_filter_def assms col raw series_min_def series_max_def)
  have "apply_filters_to_data df (active_filters st @ [Numeric c None None (None, None)])
      = Inr (getitem_mask fdf (map (\<lambda>x. False) xs))"
    by (simp add: apply_filters_append e assms(2) all_False_mask)
  with a df_empty_all_False show ?thesis by blast
qed

theorem add_new_filter_nan_witness:
  "add_new_filter
     \<lparr>active_filters = [Categorical ''g'' [''X'', ''Y''] [''Y'']], filter_counter = 1\<rparr>
     [(''g'', ObjCol [Some ''X'', Some ''X'', Some ''Y'']),
      (''v'', NumCol [Some 1, Some 2, None])] ''v''
   = Inr \<lparr>active_filters = [Categorical ''g'' [''X'', ''Y''] [''Y''],
                             Numeric ''v'' None None (None, None)],
          filter_counter = 1\<rparr>
   \<and> apply_filters_to_data
     [(''g'', ObjCol [Some ''X'', Some ''X'', Some ''Y'']),
      (''v'', NumCol [Some 1, Some 2, None])]
     [Categorical ''g'' [''X'', ''Y''] [''Y''], Numeric ''v'' None None (None, None)]
   = Inr [(''g'', ObjCol []), (''v'', NumCol [])]"
proof -
  have h1: "apply_current_filters
     \<lparr>active_filters = [Categorical ''g'' [''X'', ''Y''] [''Y'']], filter_counter = 1\<rparr>
     [(''g'', ObjCol [Some ''X'', Some ''X'', Some ''Y'']),
      (''v'', NumCol [Some 1, Some 2, None])]
    = Inr [(''g'', ObjCol [Some ''Y'']), (''v'', NumCol [None])]"
    by (simp add: apply_current_filters_def getitem_def getitem_mask_def)
  have h2: "getitem [(''g'', ObjCol [Some ''Y'']), (''v'', NumCol [None])] ''v''
    = Inr (NumCol [None])"
    by (simp add: getitem_def)
  have h3: "dropna [None :: real option] = []"
    by (simp add: dropna_def List.map_filter_simps)
  have "apply_filters_to_data
     [(''g'', ObjCol [Some ''X'', Some ''X'', Some ''Y'']),
      (''v'', NumCol [Some 1, Some 2, None])]
     [Categorical ''g'' [''X'', ''Y''] [''Y''], Numeric ''v'' None None (None, None)]
   = Inr [(''g'', ObjCol []), (''v'', NumCol [])]"
    by (simp add: getitem_def getitem_mask_def)
  with add_new_filter_nan[OF h1 h2 h3] show ?thesis by simp
qed



















lemma classify_Nil: "classify [] = ([], [], None, None)"
  by (simp add: classify_def quantile_def)

lemma quantile_nonempty: "data \<noteq> [] \<Longrightarrow> \<exists>a. quantile data q = Some a"
  by (simp add: quantile_def Let_def)

lemma classify_nonempty:
  assumes "data \<noteq> []"
  shows "\<exists>l u. classify data =
     (filter (\<lambda>v. l \<le> v \<and> v \<le> u) data, filter (\<lambda>v. v < l \<or> u < v) data, Some l, Some u)"
proof -
  from quantile_nonempty[OF assms] obtain a where a: "quantile data (1/4) = Some a" by blast
  from quantile_nonempty[OF assms] obtain b where b: "quantile data (3/4) = Some b" by blast
  show ?thesis by (simp add: classify_def a b)
qed

lemma mset_filter_split:
  "mset (filter P xs) + mset (filter (\<lambda>x. \<not> P x) xs) = mset xs"
  by (induction xs) simp_all

text \<open>
  C6. The classifier partitions its sample: normal points and outliers together are the
  sample as a multiset, no value is in both, and each is a subsequence of the sample
  (the relative order of the input is kept).
\<close>

theorem classify_partition:
  "case classify data of (normal_data, outliers, fence) \<Rightarrow>
     mset normal_data + mset outliers = mset data
     \<and> set normal_data \<inter> set outliers = {}
     \<and> subseq normal_data data \<and> subseq outliers data"
proof (cases "data = []")
  case True
  then show ?thesis by (simp add: classify_Nil)
next
  case False
  from classify_nonempty[OF False] obtain l u where c: "classify data =
     (filter (\<lambda>v. l \<le> v \<and> v \<le> u) data, filter (\<lambda>v. v < l \<or> u < v) data, Some l, Some u)"
    by blast
  have n: "(\<lambda>v. v < l \<or> u < v) = (\<lambda>v. \<not> (l \<le> v \<and> v \<le> u))"
    by (auto simp: fun_eq_iff)
  have "mset (filter (\<lambda>v. l \<le> v \<and> v \<le> u) data) + mset (filter (\<lambda>v. v < l \<or> u < v) data)
      = mset data"
    unfolding n by (rule mset_filter_split)
  moreover have "set (filter (\<lambda>v. l \<le> v \<and> v \<le> u) data) \<inter> set (filter (\<lambda>v. v < l \<or> u < v) data) = {}"
    by auto
  ultimately show ?thesis by (simp add: c)
qed

theorem classify_partition_witness:
  "classify [1, 2, 3, 4, 5, 100] = ([1, 2, 3, 4, 5], [100], Some (-3/2), Some (17/2))
   \<and> mset [1, 2, 3, 4, 5] + mset [100] = mset [1, 2, 3, 4, 5, 100 :: real]
   \<and> set [1, 2, 3, 4, 5] \<inter> set [100 :: real] = {}
   \<and> subseq [1, 2, 3, 4, 5] [1, 2, 3, 4, 5, 100 :: real]
   \<and> subseq [100] [1, 2, 3, 4, 5, 100 :: real]"
proof -
  have c: "classify [1, 2, 3, 4, 5, 100] = ([1, 2, 3, 4, 5], [100], Some (-3/2), Some (17/2))"
    by (simp add: classify_def quantile_def Let_def)
  from classify_partition[of "[1, 2, 3, 4, 5, 100]"] c show ?thesis by simp
qed






lemma create_boxplot_single_mean:
  assumes "project1 df y_column = Inr data" and "data \<noteq> []"
  shows "create_boxplot palette df y_column None color_column show_points True
         = Inl UnboundLocalError"
  using assms by (simp add: create_boxplot_def single_box_def split: prod.splits)

text \<open>
  C2. With no group column and the mean requested, the claim expects one mean marker at
  the mean of the value column. The single-box branch reads \<^verbatim>\<open>group_data\<close>, which only the
  grouped branch assigns: on the dataset with the value column 1, 2, 3 the call raises
  UnboundLocalError and no trace is produced.
\<close>

theorem single_box_mean_unbound:
  "create_boxplot EXTENDED_COLORS [(''v'', NumCol [Some 1, Some 2, Some 3])] ''v'' None None
     True True
   = (Inl UnboundLocalError :: error + string trace list)"
  by (rule create_boxplot_single_mean[where data = "[1, 2, 3]"])
     (simp_all add: project1_def getitem_def dropna_def)


lemma build_color_map_zip:
  "length gs \<le> length colors \<Longrightarrow> build_color_map gs colors = Inr (zip gs colors)"
  by (induction gs colors rule: build_color_map.induct) simp_all




lemma set_unique: "set (unique xs) = set xs"
  by (simp add: unique_def)






lemma map_fst_pairs: "map fst (map (\<lambda>k. (k, f k)) ks) = ks"
  by (induction ks) simp_all







text \<open>
  The traces follow \<^verbatim>\<open>groups\<close>: in the branch without a colour column, the mean markers of
  the figure are, in order, one marker at each key of \<open>plot_groups\<close>.
\<close>

lemma group_points_no_mean:
  "filter (\<lambda>t. t_role t = MeanMarker) (group_points plot_df ig) = []"
  by (cases ig) (simp add: group_points_def Let_def split: prod.splits)

lemma points_no_mean:
  "filter (\<lambda>t. t_role t = MeanMarker) (concat (map (group_points plot_df) igs)) = []"
  by (induction igs) (simp_all add: group_points_no_mean)

lemma group_mean_present:
  assumes "g \<in> snd ` set plot_df"
  shows "map t_x (filter (\<lambda>t. t_role t = MeanMarker) (group_mean plot_df (i, g)))
         = [Some [Key g]]"
proof -
  from assms have "filter (\<lambda>r. snd r = g) plot_df \<noteq> []"
    by (auto simp: filter_empty_conv)
  then show ?thesis by (simp add: group_mean_def Let_def)
qed

lemma means_follow:
  "set gs \<subseteq> snd ` set plot_df \<Longrightarrow>
     map t_x (filter (\<lambda>t. t_role t = MeanMarker)
       (concat (map (group_mean plot_df) (enumerate n gs))))
     = map (\<lambda>k. Some [Key k]) gs"
proof (induction gs arbitrary: n)
  case Nil
  then show ?case by simp
next
  case (Cons g gs)
  from Cons.prems have g: "g \<in> snd ` set plot_df" and gs: "set gs \<subseteq> snd ` set plot_df"
    by simp_all
  from group_mean_present[OF g, of n] Cons.IH[OF gs, of "Suc n"] show ?case by simp
qed

lemma set_sorted_unique: "set (sorted_unique xs) = set xs"
  by (simp add: sorted_unique_def set_unique)

lemma mean_markers_follow_groups:
  "map t_x (filter (\<lambda>t. t_role t = MeanMarker) (grouped_boxes plot_df show_points True))
   = map (\<lambda>k. Some [Key k]) (sorted_unique (map snd plot_df))"
proof -
  have "set (sorted_unique (map snd plot_df)) \<subseteq> snd ` set plot_df"
    by (simp add: set_sorted_unique)
  from means_follow[OF this, of 0] show ?thesis
    by (simp add: grouped_boxes_def Let_def points_no_mean)
qed

end
